theory Spec2Isabelle
  imports Main "HOL-Library.Sublist"
begin

section \<open>The world a fabfile runs in\<close>

text \<open>
  \<^verbatim>\<open>fabfile.py\<close> is a list of Fabric tasks. Everything a task does goes through four
  names of \<^verbatim>\<open>fabric.api\<close> and one of \<^verbatim>\<open>fabric.contrib.console\<close>: \<^verbatim>\<open>local\<close> runs a
  shell command, \<^verbatim>\<open>confirm\<close> asks the operator a yes/no question, \<^verbatim>\<open>abort\<close> ends the
  run, \<^verbatim>\<open>settings\<close> overrides keys of \<^verbatim>\<open>env\<close> for the extent of a \<^verbatim>\<open>with\<close> block, and
  \<^verbatim>\<open>env\<close> is the process-wide environment context.

  The shell and the operator are outside the program. A run is deterministic once the
  outcome of every command and the answer to every prompt are fixed, so the world carries
  both as sequences: \<open>fails s 0\<close> tells whether the next command run reports failure,
  \<open>answers s 0\<close> is the operator's answer to the next prompt, and each use shifts the
  sequence by one. What the run did is recorded in \<open>trace\<close>, oldest event first.
\<close>

datatype event =
  Ran string bool  \<comment> \<open>\<^verbatim>\<open>local(cmd, capture=...)\<close> was executed\<close>
  | Asked string   \<comment> \<open>\<^verbatim>\<open>confirm(question)\<close> prompted the operator\<close>

text \<open>
  Of the keys of \<^verbatim>\<open>env\<close> the file reads \<^verbatim>\<open>run\<close> (line 9 stores it when the module is
  loaded, the templates read it through \<^verbatim>\<open>format(**env)\<close>), and Fabric's \<^verbatim>\<open>local\<close> reads
  \<^verbatim>\<open>warn_only\<close>, which \<^verbatim>\<open>cont\<close> overrides through \<^verbatim>\<open>settings\<close>.
\<close>

record env_ctx =
  run :: string
  warn_only :: bool

record world =
  env :: env_ctx
  fails :: "nat \<Rightarrow> bool"
  answers :: "nat \<Rightarrow> bool"
  trace :: "event list"

text \<open>
  The ways a run ends early. \<open>Abort\<close> is \<^verbatim>\<open>abort(msg)\<close> called by the fabfile;
  \<open>LocalFailed\<close> is the abort Fabric's \<^verbatim>\<open>local\<close> raises itself for a failed command when
  \<^verbatim>\<open>env.warn_only\<close> is off (its message names the command); \<open>KeyError\<close> and
  \<open>ValueError\<close> are the exceptions of \<^verbatim>\<open>str.format\<close>.
\<close>

datatype error =
  Abort string
  | LocalFailed string
  | KeyError string
  | ValueError

type_synonym 'a fab = "world \<Rightarrow> (error + 'a) \<times> world"

definition return :: "'a \<Rightarrow> 'a fab" where
  "return x s = (Inr x, s)"

definition raise :: "error \<Rightarrow> 'a fab" where
  "raise e s = (Inl e, s)"

text \<open>One statement after another: an exception of the first skips the second.\<close>

definition bind :: "'a fab \<Rightarrow> ('a \<Rightarrow> 'b fab) \<Rightarrow> 'b fab" where
  "bind m f s = (case m s of (Inl e, s') \<Rightarrow> (Inl e, s') | (Inr x, s') \<Rightarrow> f x s')"

text \<open>A block of statements, each called for its effect.\<close>

fun steps :: "unit fab list \<Rightarrow> unit fab" where
  "steps [] = return ()"
| "steps (m # ms) = bind m (\<lambda>_. steps ms)"

text \<open>
  Every way of ending early leaves the process through \<^verbatim>\<open>sys.exit(1)\<close> or an uncaught
  exception: a non-zero exit status. A run that returns exits with 0.
\<close>

definition exit_status :: "error + 'a \<Rightarrow> nat" where
  "exit_status r = (case r of Inl _ \<Rightarrow> 1 | Inr _ \<Rightarrow> 0)"

subsection \<open>Fabric's primitives\<close>

text \<open>
  \<^verbatim>\<open>local(cmd, capture)\<close> runs the command. When it fails and \<^verbatim>\<open>env.warn_only\<close> is off,
  Fabric aborts the run; otherwise the call returns a result whose \<^verbatim>\<open>failed\<close> attribute
  tells the outcome (for a failed command Fabric prints a warning, which is not part of
  the model). The fabfile reads no other attribute of the result, so the model returns
  that flag.
\<close>

definition local :: "string \<Rightarrow> bool \<Rightarrow> bool fab" where
  "local cmd capture s =
     (let failed = fails s 0;
          s' = s\<lparr>fails := (\<lambda>i. fails s (Suc i)), trace := trace s @ [Ran cmd capture]\<rparr>
      in if failed \<and> \<not> warn_only (env s) then (Inl (LocalFailed cmd), s')
         else (Inr failed, s'))"

text \<open>
  \<^verbatim>\<open>confirm(question)\<close> blocks until the operator has answered yes or no and returns the
  answer.
\<close>

definition confirm :: "string \<Rightarrow> bool fab" where
  "confirm question s =
     (Inr (answers s 0),
      s\<lparr>answers := (\<lambda>i. answers s (Suc i)), trace := trace s @ [Asked question]\<rparr>)"

definition abort :: "string \<Rightarrow> 'a fab" where
  "abort msg = raise (Abort msg)"

text \<open>
  \<^verbatim>\<open>with settings(warn_only=v): body\<close> stores \<open>v\<close> under the key, runs the body and puts
  the previous value back when the block is left, also when it is left by an exception.
\<close>

definition settings_warn_only :: "bool \<Rightarrow> 'a fab \<Rightarrow> 'a fab" where
  "settings_warn_only v body s =
     (let previous = warn_only (env s);
          (r, s') = body (s\<lparr>env := (env s)\<lparr>warn_only := v\<rparr>\<rparr>)
      in (r, s'\<lparr>env := (env s')\<lparr>warn_only := previous\<rparr>\<rparr>))"

subsection \<open>Python values the fabfile relies on\<close>

text \<open>
  An argument that defaults to \<^verbatim>\<open>None\<close> is an optional string. In a condition Python
  takes \<^verbatim>\<open>None\<close> and the empty string as false and every other string as true;
  \<^verbatim>\<open>str\<close> of \<^verbatim>\<open>None\<close> is the text \<^verbatim>\<open>None\<close>.
\<close>

definition truthy :: "string option \<Rightarrow> bool" where
  "truthy v = (case v of None \<Rightarrow> False | Some t \<Rightarrow> t \<noteq> [])"

definition py_str :: "string option \<Rightarrow> string" where
  "py_str v = (case v of None \<Rightarrow> ''None'' | Some t \<Rightarrow> t)"

section \<open>The helper \<^verbatim>\<open>cont\<close>\<close>

text \<open>
  \<^verbatim>\<open>
  def cont(cmd, message):
      with settings(warn_only=True):
          result = local(cmd, capture=True)

      if message and result.failed and not confirm(message):
          abort('Stopped execution per user request.')
  \<close>
  Python's \<^verbatim>\<open>and\<close> evaluates its right operand only when the left one is true, so the
  operator is asked only for a true message and a failed command.
\<close>

definition cont :: "string \<Rightarrow> string option \<Rightarrow> unit fab" where
  "cont cmd message =
     bind (settings_warn_only True (local cmd True)) (\<lambda>failed.
       if truthy message then
         if failed then
           bind (confirm (py_str message)) (\<lambda>yes.
             if \<not> yes then abort ''Stopped execution per user request.''
             else return ())
         else return ()
       else return ())"

section \<open>\<^verbatim>\<open>str.format\<close>\<close>

text \<open>
  The commands are built with \<^verbatim>\<open>template.format(name=value, ...)\<close>. In a template
  \<^verbatim>\<open>{name}\<close> is replaced by the value passed under that name, \<^verbatim>\<open>{{\<close> stands for one
  \<^verbatim>\<open>{\<close> and \<^verbatim>\<open>}}\<close> for one \<^verbatim>\<open>}\<close>; every other character is copied. A name that was
  not passed raises \<^verbatim>\<open>KeyError\<close>, a brace without its partner \<^verbatim>\<open>ValueError\<close>. The
  values are inserted as they are: braces inside a value are not read again. The
  templates of this file use plain names only (no index, attribute, conversion or
  format specification), which is the part of the mini-language modelled here.

  The second argument is the field name being read: \<open>None\<close> outside a field.
\<close>

definition emit :: "string \<Rightarrow> error + string \<Rightarrow> error + string" where
  "emit v r = (case r of Inl e \<Rightarrow> Inl e | Inr t \<Rightarrow> Inr (v @ t))"

fun format_from :: "(string \<times> string) list \<Rightarrow> string option \<Rightarrow> string \<Rightarrow> error + string" where
  "format_from kw None [] = Inr []"
| "format_from kw (Some name) [] = Inl ValueError"
| "format_from kw None (c # cs) =
     (if c = CHR ''{'' then
        (case cs of
           [] \<Rightarrow> Inl ValueError
         | d # ds \<Rightarrow>
             if d = CHR ''{'' then emit [CHR ''{''] (format_from kw None ds)
             else format_from kw (Some []) cs)
      else if c = CHR ''}'' then
        (case cs of
           [] \<Rightarrow> Inl ValueError
         | d # ds \<Rightarrow>
             if d = CHR ''}'' then emit [CHR ''}''] (format_from kw None ds)
             else Inl ValueError)
      else emit [c] (format_from kw None cs))"
| "format_from kw (Some name) (c # cs) =
     (if c = CHR ''}'' then
        (case map_of kw name of
           None \<Rightarrow> Inl (KeyError name)
         | Some v \<Rightarrow> emit v (format_from kw None cs))
      else if c = CHR ''{'' then Inl ValueError
      else format_from kw (Some (name @ [c])) cs)"

definition format :: "string \<Rightarrow> (string \<times> string) list \<Rightarrow> string fab" where
  "format template kwargs s = (format_from kwargs None template, s)"

text \<open>
  \<^verbatim>\<open>template.format(name=value, **env)\<close> passes the keys of the environment context as
  well; a boolean value is inserted as \<^verbatim>\<open>True\<close> or \<^verbatim>\<open>False\<close>.
\<close>

definition env_items :: "env_ctx \<Rightarrow> (string \<times> string) list" where
  "env_items e =
     [(''run'', run e), (''warn_only'', if warn_only e then ''True'' else ''False'')]"

definition format_env :: "string \<Rightarrow> (string \<times> string) list \<Rightarrow> string fab" where
  "format_env template kwargs s = format template (kwargs @ env_items (env s)) s"

section \<open>Globals\<close>

definition initial_env :: env_ctx where
  "initial_env = \<lparr>run = ''heroku run python manage.py'', warn_only = False\<rparr>"

definition HEROKU_ADDONS :: "string list" where
  "HEROKU_ADDONS =
     [''cloudamqp:lemur'',
      ''heroku-postgresql:dev'',
      ''scheduler:standard'',
      ''memcachier:dev'',
      ''newrelic:standard'',
      ''pgbackups:auto-month'',
      ''sentry:developer'']"

definition HEROKU_CONFIGS :: "string list" where
  \<open>HEROKU_CONFIGS =
     [''BUILDPACK_URL=https://github.com/jbarone/heroku-buildpack-python-plus'',
      ''DJANGO_SETTINGS_MODULE={{ project_name }}.settings.prod'',
      ''SECRET_KEY="{{ secret_key }}"'',
      ''AWS_ACCESS_KEY_ID=xxx'',
      ''AWS_SECRET_ACCESS_KEY=xxx'',
      ''AWS_STORAGE_BUCKET_NAME={{ project_name }}'']\<close>

section \<open>The tasks\<close>

text \<open>\<^verbatim>\<open>local(cmd)\<close> as a statement: the result is dropped, the output is not captured.\<close>

definition local_stmt :: "string \<Rightarrow> unit fab" where
  "local_stmt cmd = bind (local cmd False) (\<lambda>_. return ())"

text \<open>\<^verbatim>\<open>for x in xs: body\<close>, for a body without \<^verbatim>\<open>break\<close> or \<^verbatim>\<open>continue\<close>.\<close>

definition for_each :: "'a list \<Rightarrow> ('a \<Rightarrow> unit fab) \<Rightarrow> unit fab" where
  "for_each xs body = steps (map body xs)"

subsection \<open>Database management\<close>

definition syncdb :: "unit fab" where
  "syncdb = bind (format_env ''{run} syncdb --noinput'' []) local_stmt"

definition migrate :: "string option \<Rightarrow> unit fab" where
  "migrate app =
     (if truthy app then
        bind (format_env ''{run} migrate {app} --noinput'' [(''app'', py_str app)]) local_stmt
      else
        bind (format_env ''{run} migrate --noinput'' []) local_stmt)"

definition south_init :: "string \<Rightarrow> unit fab" where
  "south_init app =
     bind (format ''python manage.py schemamigration {app} --initial'' [(''app'', app)])
       local_stmt"

definition south_update :: "string \<Rightarrow> unit fab" where
  "south_update app =
     bind (format ''python manage.py schemamigration {app} --auto'' [(''app'', app)])
       local_stmt"

subsection \<open>File management\<close>

definition collectstatic :: "unit fab" where
  "collectstatic = bind (format_env ''{run} collectstatic --noinput'' []) local_stmt"

definition compress :: "unit fab" where
  "compress = bind (format_env ''{run} compress'' []) local_stmt"

subsection \<open>Project management\<close>

text \<open>
  The last command of \<^verbatim>\<open>initialize\<close> is \<^verbatim>\<open>git commit -m 'First commit'\<close>; its closing
  quote is the character \<open>0x27\<close>.
\<close>

definition initialize :: "unit fab" where
  "initialize =
     steps
       [local_stmt ''rm -rf docs README.md'',
        local_stmt ''echo /{{ project_name }}/static > .gitignore'',
        local_stmt ''git init'',
        local_stmt ''git add .'',
        local_stmt (''git commit -m 'First commit'' @ [CHR 0x27])]"

definition startapp :: "string \<Rightarrow> unit fab" where
  "startapp app =
     steps
       [bind (format ''mkdir {{ project_name }}/apps/{app}'' [(''app'', app)]) local_stmt,
        bind (format ''python manage.py startapp {app} {{ project_name }}/apps/{app}''
                [(''app'', app)])
          local_stmt]"

subsection \<open>Heroku management\<close>

definition update :: "unit fab" where
  "update =
     steps
       [cont ''git push heroku master''
          (Some ''Couldn't push your application to Heroku, continue anyway?''),
        syncdb,
        migrate None,
        collectstatic,
        compress,
        bind (format_env ''{run} newrelic-admin validate-config - stdout'' []) (\<lambda>cmd.
          cont cmd (Some ''Couldn't initialize New Relic, continue anyway?''))]"

definition bootstrap :: "string option \<Rightarrow> unit fab" where
  "bootstrap app0 =
     (let app = (if \<not> truthy app0 then Some ''{{ project_name}}'' else app0) in
      steps
        [bind (format ''heroku apps:create {app}'' [(''app'', py_str app)]) (\<lambda>cmd.
           cont cmd (Some ''Couldn't create the Heroku app, continue anyway?'')),
         for_each HEROKU_ADDONS (\<lambda>addon.
           bind (format ''heroku addons:add {addon}'' [(''addon'', addon)]) (\<lambda>cmd.
           bind (format ''Couldn't add {addon} to your Heroku app, continue anyway?''
                   [(''addon'', addon)]) (\<lambda>question.
             cont cmd (Some question)))),
         for_each HEROKU_CONFIGS (\<lambda>config.
           bind (format ''heroku config:add config'' [(''config'', config)]) (\<lambda>cmd.
           bind (format ''Couldn't add config to your Heroku app, continue anyway?''
                   [(''config'', config)]) (\<lambda>question.
             cont cmd (Some question)))),
         cont ''git push heroku master''
           (Some ''Couldn't push your application to Heroku, continue anyway?''),
         syncdb,
         migrate None,
         collectstatic,
         compress,
         bind (format_env ''{run} newrelic-admin validate-config - stdout'' []) (\<lambda>cmd.
           cont cmd (Some ''Couldn't initialize New Relic, continue anyway?''))])"

definition destroy :: "string option \<Rightarrow> unit fab" where
  "destroy app0 =
     (let app = (if \<not> truthy app0 then Some ''{{ project_name }}'' else app0) in
      bind (format ''heroku apps:destroy --app {app}'' [(''app'', py_str app)]) local_stmt)"

text \<open>
  Lines 146 to 160 of \<^verbatim>\<open>bootstrap\<close> on their own: the default name, the creation of the
  application and the two loops over the catalogs. What follows them in \<^verbatim>\<open>bootstrap\<close> is
  compared with \<^verbatim>\<open>update\<close> below.
\<close>

definition provision :: "string option \<Rightarrow> unit fab" where
  "provision app0 =
     (let app = (if \<not> truthy app0 then Some ''{{ project_name}}'' else app0) in
      steps
        [bind (format ''heroku apps:create {app}'' [(''app'', py_str app)]) (\<lambda>cmd.
           cont cmd (Some ''Couldn't create the Heroku app, continue anyway?'')),
         for_each HEROKU_ADDONS (\<lambda>addon.
           bind (format ''heroku addons:add {addon}'' [(''addon'', addon)]) (\<lambda>cmd.
           bind (format ''Couldn't add {addon} to your Heroku app, continue anyway?''
                   [(''addon'', addon)]) (\<lambda>question.
             cont cmd (Some question)))),
         for_each HEROKU_CONFIGS (\<lambda>config.
           bind (format ''heroku config:add config'' [(''config'', config)]) (\<lambda>cmd.
           bind (format ''Couldn't add config to your Heroku app, continue anyway?''
                   [(''config'', config)]) (\<lambda>question.
             cont cmd (Some question))))])"

section \<open>Observing a run\<close>

text \<open>The commands of a trace, in the order they were run, and the questions asked.\<close>

fun commands :: "event list \<Rightarrow> string list" where
  "commands [] = []"
| "commands (Ran cmd capture # es) = cmd # commands es"
| "commands (Asked question # es) = commands es"

fun questions :: "event list \<Rightarrow> string list" where
  "questions [] = []"
| "questions (Ran cmd capture # es) = questions es"
| "questions (Asked question # es) = question # questions es"

text \<open>The commands a computation adds to the trace when it is started in \<open>s\<close>.\<close>

definition issued :: "'a fab \<Rightarrow> world \<Rightarrow> string list" where
  "issued m s = drop (length (commands (trace s))) (commands (trace (snd (m s))))"

text \<open>
  A fresh process: the environment context as line 9 leaves it, nothing run yet, every
  command succeeding and an operator who would accept.
\<close>

definition fresh :: world where
  "fresh = \<lparr>env = initial_env, fails = (\<lambda>i. False), answers = (\<lambda>i. True), trace = []\<rparr>"

text \<open>
  The fresh process, except that the fourth command run fails (in \<^verbatim>\<open>bootstrap\<close>: the
  installation of the third add-on) and the operator declines whatever is asked.
\<close>

definition third_addon_declined :: world where
  "third_addon_declined = fresh\<lparr>fails := (\<lambda>i. i = 3), answers := (\<lambda>i. False)\<rparr>"

text \<open>
  \<open>issues m cs\<close>: started in any world, \<open>m\<close> leaves the environment context as it found
  it and adds to the trace the commands \<open>cs\<close> (which may depend on the environment
  context), or an initial part of them when it ends early.
\<close>

definition issues :: "'a fab \<Rightarrow> (env_ctx \<Rightarrow> string list) \<Rightarrow> bool" where
  "issues m cs =
     (\<forall>s. env (snd (m s)) = env s \<and>
          (\<exists>new. commands (trace (snd (m s))) = commands (trace s) @ new \<and>
                 prefix new (cs (env s)) \<and>
                 (isl (fst (m s)) \<or> new = cs (env s))))"

section \<open>Sequencing, formatting and single steps\<close>

text \<open>What one call of \<^verbatim>\<open>cont\<close> does, in every world.\<close>

lemma cont_run:
  "cont cmd message s =
     (let s1 = s\<lparr>fails := (\<lambda>i. fails s (Suc i)), trace := trace s @ [Ran cmd True]\<rparr>;
          s2 = s1\<lparr>answers := (\<lambda>i. answers s (Suc i)),
                  trace := trace s @ [Ran cmd True, Asked (py_str message)]\<rparr>
      in if truthy message \<and> fails s 0
         then (if answers s 0 then (Inr (), s2)
               else (Inl (Abort ''Stopped execution per user request.''), s2))
         else (Inr (), s1))"
  by (simp add: cont_def bind_def settings_warn_only_def local_def confirm_def abort_def
      raise_def return_def Let_def)

lemma bind_return: "bind (return x) f = f x"
  by (simp add: fun_eq_iff bind_def return_def)

lemma bind_assoc: "bind (bind m f) g = bind m (\<lambda>x. bind (f x) g)"
  by (auto simp: fun_eq_iff bind_def split: prod.splits sum.splits)

lemma steps_append: "steps (xs @ ys) = bind (steps xs) (\<lambda>_. steps ys)"
  by (induction xs) (simp_all add: bind_return bind_assoc)

lemma commands_append: "commands (es @ fs) = commands es @ commands fs"
  by (induction es rule: commands.induct) simp_all

lemma questions_append: "questions (es @ fs) = questions es @ questions fs"
  by (induction es rule: questions.induct) simp_all

lemma issues_return: "issues (return x) (\<lambda>_. [])"
  by (simp add: issues_def return_def)

lemma issues_bind:
  assumes "issues m cs" and "\<And>x. issues (f x) ds"
  shows "issues (bind m f) (\<lambda>e. cs e @ ds e)"
  unfolding issues_def
proof (intro allI)
  fix s
  obtain r s1 where ms: "m s = (r, s1)" by (cases "m s")
  from assms(1) ms obtain new where
    e1: "env s1 = env s" and n1: "commands (trace s1) = commands (trace s) @ new"
    and p1: "prefix new (cs (env s))" and f1: "isl r \<or> new = cs (env s)"
    unfolding issues_def by (metis fst_conv snd_conv)
  show "env (snd (bind m f s)) = env s \<and>
         (\<exists>new. commands (trace (snd (bind m f s))) = commands (trace s) @ new \<and>
                prefix new (cs (env s) @ ds (env s)) \<and>
                (isl (fst (bind m f s)) \<or> new = cs (env s) @ ds (env s)))"
  proof (cases r)
    case (Inl e)
    then have "bind m f s = (Inl e, s1)" by (simp add: bind_def ms)
    with e1 n1 p1 show ?thesis by (auto simp: prefix_def)
  next
    case (Inr x)
    then have b: "bind m f s = f x s1" by (simp add: bind_def ms)
    from Inr f1 have full: "new = cs (env s)" by simp
    from assms(2)[of x] obtain new2 where
      e2: "env (snd (f x s1)) = env s1"
      and n2: "commands (trace (snd (f x s1))) = commands (trace s1) @ new2"
      and p2: "prefix new2 (ds (env s1))" and f2: "isl (fst (f x s1)) \<or> new2 = ds (env s1)"
      unfolding issues_def by metis
    show ?thesis
      using e1 e2 n1 n2 p2 f2 full b by (auto simp: prefix_def)
  qed
qed


lemma issues_cont: "issues (cont cmd message) (\<lambda>_. [cmd])"
  by (simp add: issues_def cont_run Let_def commands_append)

lemma issues_local_stmt: "issues (local_stmt cmd) (\<lambda>_. [cmd])"
  by (simp add: issues_def local_stmt_def local_def bind_def return_def Let_def commands_append)

lemma issues_steps:
  assumes "list_all2 issues ms css"
  shows "issues (steps ms) (\<lambda>e. concat (map (\<lambda>cs. cs e) css))"
  using assms
proof (induction rule: list_all2_induct)
  case Nil
  show ?case by (simp add: issues_return)
next
  case (Cons m ms cs css)
  from issues_bind[OF Cons.hyps(1), of "\<lambda>_. steps ms", OF Cons.IH]
  show ?case by simp
qed

lemma issues_for_each:
  assumes "\<And>x. issues (body x) (\<lambda>_. [cmd x])"
  shows "issues (for_each xs body) (\<lambda>_. map cmd xs)"
proof -
  have "list_all2 issues (map body xs) (map (\<lambda>x _. [cmd x]) xs)"
    by (induction xs) (simp_all add: assms)
  from issues_steps[OF this] show ?thesis
    by (simp add: for_each_def comp_def concat_map_singleton)
qed

lemma format_apps_create:
  "format ''heroku apps:create {app}'' [(''app'', a)] = return (''heroku apps:create '' @ a)"
  by (simp add: fun_eq_iff format_def return_def emit_def)

lemma format_addon_cmd:
  "format ''heroku addons:add {addon}'' [(''addon'', a)] = return (''heroku addons:add '' @ a)"
  by (simp add: fun_eq_iff format_def return_def emit_def)

lemma format_addon_question:
  "format ''Couldn't add {addon} to your Heroku app, continue anyway?'' [(''addon'', a)] =
     return (''Couldn't add '' @ a @ '' to your Heroku app, continue anyway?'')"
  by (simp add: fun_eq_iff format_def return_def emit_def)

lemma format_config_cmd:
  "format ''heroku config:add config'' [(''config'', c)] = return ''heroku config:add config''"
  by (simp add: fun_eq_iff format_def return_def emit_def)

lemma format_config_question:
  "format ''Couldn't add config to your Heroku app, continue anyway?'' [(''config'', c)] =
     return ''Couldn't add config to your Heroku app, continue anyway?''"
  by (simp add: fun_eq_iff format_def return_def emit_def)

lemma format_apps_destroy:
  "format ''heroku apps:destroy --app {app}'' [(''app'', a)] =
     return (''heroku apps:destroy --app '' @ a)"
  by (simp add: fun_eq_iff format_def return_def emit_def)

lemma format_south_init:
  "format ''python manage.py schemamigration {app} --initial'' [(''app'', a)] =
     return (''python manage.py schemamigration '' @ a @ '' --initial'')"
  by (simp add: fun_eq_iff format_def return_def emit_def)

lemma format_south_update:
  "format ''python manage.py schemamigration {app} --auto'' [(''app'', a)] =
     return (''python manage.py schemamigration '' @ a @ '' --auto'')"
  by (simp add: fun_eq_iff format_def return_def emit_def)

lemma format_mkdir:
  "format ''mkdir {{ project_name }}/apps/{app}'' [(''app'', a)] =
     return (''mkdir { project_name }/apps/'' @ a)"
  by (simp add: fun_eq_iff format_def return_def emit_def)

lemma format_startapp:
  "format ''python manage.py startapp {app} {{ project_name }}/apps/{app}'' [(''app'', a)] =
     return (''python manage.py startapp '' @ a @ '' { project_name }/apps/'' @ a)"
  by (simp add: fun_eq_iff format_def return_def emit_def)

lemma format_env_syncdb:
  "format_env ''{run} syncdb --noinput'' [] =
     (\<lambda>s. (Inr (run (env s) @ '' syncdb --noinput''), s))"
  by (simp add: fun_eq_iff format_env_def format_def env_items_def emit_def)

lemma format_env_migrate:
  "format_env ''{run} migrate --noinput'' [] =
     (\<lambda>s. (Inr (run (env s) @ '' migrate --noinput''), s))"
  by (simp add: fun_eq_iff format_env_def format_def env_items_def emit_def)

lemma format_env_migrate_app:
  "format_env ''{run} migrate {app} --noinput'' [(''app'', a)] =
     (\<lambda>s. (Inr (run (env s) @ '' migrate '' @ a @ '' --noinput''), s))"
  by (simp add: fun_eq_iff format_env_def format_def env_items_def emit_def)

lemma format_env_collectstatic:
  "format_env ''{run} collectstatic --noinput'' [] =
     (\<lambda>s. (Inr (run (env s) @ '' collectstatic --noinput''), s))"
  by (simp add: fun_eq_iff format_env_def format_def env_items_def emit_def)

lemma format_env_compress:
  "format_env ''{run} compress'' [] =
     (\<lambda>s. (Inr (run (env s) @ '' compress''), s))"
  by (simp add: fun_eq_iff format_env_def format_def env_items_def emit_def)

lemma format_env_newrelic:
  "format_env ''{run} newrelic-admin validate-config - stdout'' [] =
     (\<lambda>s. (Inr (run (env s) @ '' newrelic-admin validate-config - stdout''), s))"
  by (simp add: fun_eq_iff format_env_def format_def env_items_def emit_def)

lemma local_stmt_run:
  "local_stmt cmd s =
     (if fails s 0 \<and> \<not> warn_only (env s) then Inl (LocalFailed cmd) else Inr (),
      s\<lparr>fails := (\<lambda>i. fails s (Suc i)), trace := trace s @ [Ran cmd False]\<rparr>)"
  by (simp add: local_stmt_def local_def bind_def return_def Let_def)

lemma issues_syncdb: "issues syncdb (\<lambda>e. [run e @ '' syncdb --noinput''])"
  by (simp add: issues_def syncdb_def format_env_syncdb bind_def local_stmt_run commands_append)

lemma issues_migrate:
  "issues (migrate app)
     (\<lambda>e. [if truthy app then run e @ '' migrate '' @ py_str app @ '' --noinput''
           else run e @ '' migrate --noinput''])"
  by (simp add: issues_def migrate_def format_env_migrate format_env_migrate_app bind_def
      local_stmt_run commands_append)

lemma issues_collectstatic: "issues collectstatic (\<lambda>e. [run e @ '' collectstatic --noinput''])"
  by (simp add: issues_def collectstatic_def format_env_collectstatic bind_def local_stmt_run
      commands_append)

lemma issues_compress: "issues compress (\<lambda>e. [run e @ '' compress''])"
  by (simp add: issues_def compress_def format_env_compress bind_def local_stmt_run
      commands_append)

lemma issues_newrelic:
  "issues (bind (format_env ''{run} newrelic-admin validate-config - stdout'' []) (\<lambda>cmd.
             cont cmd message))
     (\<lambda>e. [run e @ '' newrelic-admin validate-config - stdout''])"
  by (simp add: issues_def format_env_newrelic bind_def cont_run Let_def commands_append)

lemma issues_update:
  "issues update
     (\<lambda>e. [''git push heroku master'',
           run e @ '' syncdb --noinput'',
           run e @ '' migrate --noinput'',
           run e @ '' collectstatic --noinput'',
           run e @ '' compress'',
           run e @ '' newrelic-admin validate-config - stdout''])"
proof -
  have "list_all2 issues
          [cont ''git push heroku master''
             (Some ''Couldn't push your application to Heroku, continue anyway?''),
           syncdb, migrate None, collectstatic, compress,
           bind (format_env ''{run} newrelic-admin validate-config - stdout'' []) (\<lambda>cmd.
             cont cmd (Some ''Couldn't initialize New Relic, continue anyway?''))]
          [\<lambda>_. [''git push heroku master''],
           \<lambda>e. [run e @ '' syncdb --noinput''],
           \<lambda>e. [if truthy None then run e @ '' migrate '' @ py_str None @ '' --noinput''
                 else run e @ '' migrate --noinput''],
           \<lambda>e. [run e @ '' collectstatic --noinput''],
           \<lambda>e. [run e @ '' compress''],
           \<lambda>e. [run e @ '' newrelic-admin validate-config - stdout'']]"
    by (simp only: list_all2_Cons list_all2_Nil issues_cont issues_syncdb issues_migrate
        issues_collectstatic issues_compress issues_newrelic simp_thms)
  from issues_steps[OF this] show ?thesis
    by (simp add: update_def truthy_def)
qed

lemma issues_create:
  "issues (bind (format ''heroku apps:create {app}'' [(''app'', a)]) (\<lambda>cmd. cont cmd message))
     (\<lambda>_. [''heroku apps:create '' @ a])"
  by (simp add: format_apps_create bind_return issues_cont)

lemma issues_addon:
  "issues (bind (format ''heroku addons:add {addon}'' [(''addon'', addon)]) (\<lambda>cmd.
           bind (format ''Couldn't add {addon} to your Heroku app, continue anyway?''
                   [(''addon'', addon)]) (\<lambda>question.
             cont cmd (Some question))))
     (\<lambda>_. [''heroku addons:add '' @ addon])"
  by (simp add: format_addon_cmd format_addon_question bind_return issues_cont)

lemma issues_config:
  "issues (bind (format ''heroku config:add config'' [(''config'', config)]) (\<lambda>cmd.
           bind (format ''Couldn't add config to your Heroku app, continue anyway?''
                   [(''config'', config)]) (\<lambda>question.
             cont cmd (Some question))))
     (\<lambda>_. [''heroku config:add config''])"
  by (simp add: format_config_cmd format_config_question bind_return issues_cont)

lemma py_str_default:
  "py_str (if \<not> truthy app0 then Some d else app0) = (if truthy app0 then py_str app0 else d)"
  by (simp add: py_str_def)

lemma issues_provision:
  "issues (provision app0)
     (\<lambda>e. (''heroku apps:create '' @ (if truthy app0 then py_str app0 else ''{{ project_name}}''))
           # map (\<lambda>addon. ''heroku addons:add '' @ addon) HEROKU_ADDONS
           @ map (\<lambda>config. ''heroku config:add config'') HEROKU_CONFIGS)"
proof -
  let ?a = "if truthy app0 then py_str app0 else ''{{ project_name}}''"
  have "list_all2 issues
        [bind (format ''heroku apps:create {app}'' [(''app'', ?a)]) (\<lambda>cmd.
           cont cmd (Some ''Couldn't create the Heroku app, continue anyway?'')),
         for_each HEROKU_ADDONS (\<lambda>addon.
           bind (format ''heroku addons:add {addon}'' [(''addon'', addon)]) (\<lambda>cmd.
           bind (format ''Couldn't add {addon} to your Heroku app, continue anyway?''
                   [(''addon'', addon)]) (\<lambda>question.
             cont cmd (Some question)))),
         for_each HEROKU_CONFIGS (\<lambda>config.
           bind (format ''heroku config:add config'' [(''config'', config)]) (\<lambda>cmd.
           bind (format ''Couldn't add config to your Heroku app, continue anyway?''
                   [(''config'', config)]) (\<lambda>question.
             cont cmd (Some question))))]
        [\<lambda>_. [''heroku apps:create '' @ ?a],
         \<lambda>_. map (\<lambda>addon. ''heroku addons:add '' @ addon) HEROKU_ADDONS,
         \<lambda>_. map (\<lambda>config. ''heroku config:add config'') HEROKU_CONFIGS]"
    by (simp only: list_all2_Cons list_all2_Nil issues_create simp_thms
        issues_for_each[OF issues_addon] issues_for_each[OF issues_config])
  from issues_steps[OF this] show ?thesis
    unfolding provision_def Let_def py_str_default
    by (simp only: list.map concat.simps append_Nil2 append_Cons append_Nil)
qed

lemma bootstrap_provision_update: "bootstrap app0 = bind (provision app0) (\<lambda>_. update)"
  unfolding bootstrap_def provision_def update_def Let_def
  by (subst steps_append[symmetric]) simp

lemma issues_bootstrap:
  "issues (bootstrap app0)
     (\<lambda>e. (''heroku apps:create '' @ (if truthy app0 then py_str app0 else ''{{ project_name}}''))
           # map (\<lambda>addon. ''heroku addons:add '' @ addon) HEROKU_ADDONS
           @ map (\<lambda>config. ''heroku config:add config'') HEROKU_CONFIGS
           @ [''git push heroku master'',
              run e @ '' syncdb --noinput'',
              run e @ '' migrate --noinput'',
              run e @ '' collectstatic --noinput'',
              run e @ '' compress'',
              run e @ '' newrelic-admin validate-config - stdout''])"
  using issues_bind[OF issues_provision[of app0], of "\<lambda>_. update", OF issues_update]
  by (simp add: bootstrap_provision_update)

lemma issues_south_init:
  "issues (south_init app) (\<lambda>_. [''python manage.py schemamigration '' @ app @ '' --initial''])"
  by (simp add: south_init_def format_south_init bind_return issues_local_stmt)

lemma issues_south_update:
  "issues (south_update app) (\<lambda>_. [''python manage.py schemamigration '' @ app @ '' --auto''])"
  by (simp add: south_update_def format_south_update bind_return issues_local_stmt)

lemma issues_initialize:
  "issues initialize
     (\<lambda>_. [''rm -rf docs README.md'',
           ''echo /{{ project_name }}/static > .gitignore'',
           ''git init'',
           ''git add .'',
           ''git commit -m 'First commit'' @ [CHR 0x27]])"
proof -
  have "list_all2 issues
          [local_stmt ''rm -rf docs README.md'',
           local_stmt ''echo /{{ project_name }}/static > .gitignore'',
           local_stmt ''git init'',
           local_stmt ''git add .'',
           local_stmt (''git commit -m 'First commit'' @ [CHR 0x27])]
          [\<lambda>_. [''rm -rf docs README.md''],
           \<lambda>_. [''echo /{{ project_name }}/static > .gitignore''],
           \<lambda>_. [''git init''],
           \<lambda>_. [''git add .''],
           \<lambda>_. [''git commit -m 'First commit'' @ [CHR 0x27]]]"
    by (simp only: list_all2_Cons list_all2_Nil issues_local_stmt simp_thms)
  from issues_steps[OF this] show ?thesis
    unfolding initialize_def
    by (simp only: list.map concat.simps append_Nil2 append_Cons append_Nil)
qed

lemma issues_startapp:
  "issues (startapp app)
     (\<lambda>_. [''mkdir { project_name }/apps/'' @ app,
           ''python manage.py startapp '' @ app @ '' { project_name }/apps/'' @ app])"
proof -
  have "list_all2 issues
          [bind (format ''mkdir {{ project_name }}/apps/{app}'' [(''app'', app)]) local_stmt,
           bind (format ''python manage.py startapp {app} {{ project_name }}/apps/{app}''
                   [(''app'', app)])
             local_stmt]
          [\<lambda>_. [''mkdir { project_name }/apps/'' @ app],
           \<lambda>_. [''python manage.py startapp '' @ app @ '' { project_name }/apps/'' @ app]]"
    by (simp only: list_all2_Cons list_all2_Nil format_mkdir format_startapp bind_return
        issues_local_stmt simp_thms)
  from issues_steps[OF this] show ?thesis
    unfolding startapp_def
    by (simp only: list.map concat.simps append_Nil2 append_Cons append_Nil)
qed

lemma destroy_run:
  "destroy app s =
     local_stmt (''heroku apps:destroy --app '' @
                 (if truthy app then py_str app else ''{{ project_name }}'')) s"
  by (simp add: destroy_def Let_def py_str_default format_apps_destroy bind_return)

lemma issues_destroy:
  "issues (destroy app)
     (\<lambda>_. [''heroku apps:destroy --app '' @
             (if truthy app then py_str app else ''{{ project_name }}'')])"
  using issues_local_stmt
    [of "''heroku apps:destroy --app '' @ (if truthy app then py_str app else ''{{ project_name }}'')"]
  by (simp add: issues_def destroy_run)

text \<open>What \<open>issues\<close> says about one run, in terms of \<open>issued\<close>.\<close>

lemma issued_of_issues:
  assumes "issues m cs"
  shows "commands (trace (snd (m s))) = commands (trace s) @ issued m s"
    and "prefix (issued m s) (cs (env s))"
    and "fst (m s) = Inr x \<Longrightarrow> issued m s = cs (env s)"
    and "env (snd (m s)) = env s"
proof -
  from assms obtain new where
    n: "commands (trace (snd (m s))) = commands (trace s) @ new"
    and p: "prefix new (cs (env s))" and f: "isl (fst (m s)) \<or> new = cs (env s)"
    and e: "env (snd (m s)) = env s"
    unfolding issues_def by blast
  from n have i: "issued m s = new" by (simp add: issued_def)
  show "commands (trace (snd (m s))) = commands (trace s) @ issued m s" using n i by simp
  show "prefix (issued m s) (cs (env s))" using p i by simp
  show "fst (m s) = Inr x \<Longrightarrow> issued m s = cs (env s)" using f i by auto
  show "env (snd (m s)) = env s" by (rule e)
qed

text \<open>In the fresh world \<^verbatim>\<open>bootstrap\<close> runs to its end.\<close>

lemma bootstrap_fresh_returns: "fst (bootstrap None fresh) = Inr ()"
  by code_simp

subsection \<open>A chain of wrapped commands\<close>

text \<open>
  In a chain of calls of \<^verbatim>\<open>cont\<close> with non-empty questions, every failing command raises
  one prompt. So the prompt of command \<open>j\<close> is answered by the answer number
  \<open>length (filter (fails s) [0..<j])\<close>, and the chain goes on after command \<open>j\<close> unless
  that command fails and this answer is no. The lemmas below count how far such a chain
  gets, in every world.
\<close>

lemma upt_0_Suc: "[0..<Suc n] = 0 # map Suc [0..<n]"
  by (simp add: upt_conv_Cons map_Suc_upt del: upt_Suc)

lemma count_failures_Suc:
  "length (filter f [0..<Suc j]) =
     (if f 0 then 1 else 0) + length (filter (\<lambda>i. f (Suc i)) [0..<j])"
  by (simp only: upt_0_Suc) (simp add: filter_map comp_def)

lemma takeWhile_not_declined_Suc:
  "length (takeWhile (\<lambda>j. f j \<longrightarrow> a (length (filter f [0..<j]))) [0..<Suc n]) =
     (if f 0 \<and> \<not> a 0 then 0
      else Suc (length (takeWhile
             (\<lambda>j. f (Suc j) \<longrightarrow>
                    (if f 0 then (\<lambda>i. a (Suc i)) else a)
                      (length (filter (\<lambda>i. f (Suc i)) [0..<j])))
             [0..<n])))"
proof -
  have "takeWhile (\<lambda>j. f j \<longrightarrow> a (length (filter f [0..<j]))) (map Suc [0..<n]) =
        map Suc (takeWhile
             (\<lambda>j. f (Suc j) \<longrightarrow>
                    (if f 0 then (\<lambda>i. a (Suc i)) else a)
                      (length (filter (\<lambda>i. f (Suc i)) [0..<j])))
             [0..<n])"
    by (simp add: takeWhile_map comp_def count_failures_Suc del: upt_Suc)
  then show ?thesis
    by (simp only: upt_0_Suc) simp
qed

lemma chain_commands:
  assumes "\<forall>cq \<in> set cqs. snd cq \<noteq> []" and "cqs \<noteq> []"
  shows "commands (trace (snd (steps (map (\<lambda>cq. cont (fst cq) (Some (snd cq))) cqs) s))) =
         commands (trace s) @
         take (Suc (length (takeWhile
                 (\<lambda>j. \<not> (fails s j \<and> \<not> answers s (length (filter (fails s) [0..<j]))))
                 [0..<length cqs - 1])))
           (map fst cqs)"
  using assms
proof (induction cqs arbitrary: s)
  case Nil
  then show ?case by simp
next
  case (Cons cq rest)
  let ?chain = "steps (map (\<lambda>cq. cont (fst cq) (Some (snd cq))) rest)"
  obtain c q where cq: "cq = (c, q)" by (cases cq)
  with Cons.prems have q: "q \<noteq> []" by simp
  have unfold: "steps (map (\<lambda>cq. cont (fst cq) (Some (snd cq))) (cq # rest)) s =
                  bind (cont c (Some q)) (\<lambda>_. ?chain) s"
    by (simp add: cq)
  let ?s1 = "s\<lparr>fails := (\<lambda>i. fails s (Suc i)), trace := trace s @ [Ran c True]\<rparr>"
  let ?s2 = "s\<lparr>fails := (\<lambda>i. fails s (Suc i)), answers := (\<lambda>i. answers s (Suc i)),
               trace := trace s @ [Ran c True, Asked q]\<rparr>"
  have head: "cont c (Some q) s =
                (if fails s 0 then (if answers s 0 then (Inr (), ?s2)
                                    else (Inl (Abort ''Stopped execution per user request.''), ?s2))
                 else (Inr (), ?s1))"
    using q by (simp add: cont_run truthy_def py_str_def Let_def)
  show ?case
  proof (cases "rest = []")
    case True
    then show ?thesis
      unfolding unfold by (simp add: cq bind_def head return_def commands_append)
  next
    case False
    then obtain n where n: "length rest = Suc n" by (cases rest) auto
    from Cons.prems have rest_q: "\<forall>cq \<in> set rest. snd cq \<noteq> []" by simp
    note IH = Cons.IH[OF rest_q False]
    show ?thesis
    proof (cases "fails s 0")
      case no_failure: False
      then have "bind (cont c (Some q)) (\<lambda>_. ?chain) s = ?chain ?s1"
        by (simp add: bind_def head)
      then show ?thesis
        unfolding unfold using no_failure
        by (simp add: cq IH n takeWhile_not_declined_Suc commands_append del: upt_Suc)
    next
      case failure: True
      show ?thesis
      proof (cases "answers s 0")
        case accepted: True
        with failure have "bind (cont c (Some q)) (\<lambda>_. ?chain) s = ?chain ?s2"
          by (simp add: bind_def head)
        then show ?thesis
          unfolding unfold using failure accepted
          by (simp add: cq IH n takeWhile_not_declined_Suc commands_append del: upt_Suc)
      next
        case declined: False
        with failure have "bind (cont c (Some q)) (\<lambda>_. ?chain) s =
                             (Inl (Abort ''Stopped execution per user request.''), ?s2)"
          by (simp add: bind_def head)
        then show ?thesis
          unfolding unfold using failure declined
          by (simp add: cq n takeWhile_not_declined_Suc commands_append del: upt_Suc)
      qed
    qed
  qed
qed

lemma issues_chain:
  "issues (steps (map (\<lambda>cq. cont (fst cq) (Some (snd cq))) cqs)) (\<lambda>_. map fst cqs)"
proof -
  have "list_all2 issues (map (\<lambda>cq. cont (fst cq) (Some (snd cq))) cqs)
          (map (\<lambda>cq _. [fst cq]) cqs)"
    by (induction cqs) (simp_all add: issues_cont)
  from issues_steps[OF this] show ?thesis
    by (simp add: comp_def concat_map_singleton)
qed

lemma issued_chain:
  assumes "\<forall>cq \<in> set cqs. snd cq \<noteq> []" and "cqs \<noteq> []"
  shows "issued (steps (map (\<lambda>cq. cont (fst cq) (Some (snd cq))) cqs)) s =
         take (Suc (length (takeWhile
                 (\<lambda>j. \<not> (fails s j \<and> \<not> answers s (length (filter (fails s) [0..<j]))))
                 [0..<length cqs - 1])))
           (map fst cqs)"
  unfolding issued_def chain_commands[OF assms] by simp

lemma issued_bind_take:
  assumes "issues m (\<lambda>_. cs)" and "\<And>x. issues (f x) ds"
  shows "take (length cs) (issued (bind m f) s) = issued m s"
proof -
  obtain r s1 where ms: "m s = (r, s1)" by (cases "m s")
  note first = issued_of_issues[OF assms(1), of s]
  show ?thesis
  proof (cases r)
    case (Inl e)
    then have "snd (bind m f s) = snd (m s)" by (simp add: bind_def ms)
    then have "issued (bind m f) s = issued m s" by (simp add: issued_def)
    moreover from first(2) have "length (issued m s) \<le> length cs"
      by (rule prefix_length_le)
    ultimately show ?thesis by simp
  next
    case (Inr x)
    then have b: "bind m f s = f x s1" by (simp add: bind_def ms)
    from Inr ms first(3)[of x] have full: "issued m s = cs" by simp
    from first(1) ms full have t1: "commands (trace s1) = commands (trace s) @ cs" by simp
    define more where "more = issued (f x) s1"
    from issued_of_issues(1)[OF assms(2), of x s1]
    have "commands (trace (snd (f x s1))) = commands (trace s) @ cs @ more"
      by (simp add: t1 more_def)
    then have "issued (bind m f) s = cs @ more"
      by (simp add: issued_def b)
    with full show ?thesis by simp
  qed
qed

text \<open>
  \<^verbatim>\<open>bootstrap\<close> starts with such a chain: the creation of the application and the loop
  over the add-on catalog.
\<close>

lemma bootstrap_split:
  "bootstrap app0 =
     bind (steps (map (\<lambda>cq. cont (fst cq) (Some (snd cq)))
             ((''heroku apps:create '' @
                 (if truthy app0 then py_str app0 else ''{{ project_name}}''),
               ''Couldn't create the Heroku app, continue anyway?'')
              # map (\<lambda>addon. (''heroku addons:add '' @ addon,
                              ''Couldn't add '' @ addon @
                              '' to your Heroku app, continue anyway?''))
                  HEROKU_ADDONS)))
       (\<lambda>_. bind (for_each HEROKU_CONFIGS (\<lambda>config.
                 bind (format ''heroku config:add config'' [(''config'', config)]) (\<lambda>cmd.
                 bind (format ''Couldn't add config to your Heroku app, continue anyway?''
                         [(''config'', config)]) (\<lambda>question.
                   cont cmd (Some question)))))
               (\<lambda>_. update))"
  unfolding bootstrap_def Let_def py_str_default update_def
  by (simp add: for_each_def[of HEROKU_ADDONS] format_apps_create format_addon_cmd
      format_addon_question bind_return bind_assoc steps_append comp_def)

lemma issues_configs_then_update:
  "issues (bind (for_each HEROKU_CONFIGS (\<lambda>config.
                 bind (format ''heroku config:add config'' [(''config'', config)]) (\<lambda>cmd.
                 bind (format ''Couldn't add config to your Heroku app, continue anyway?''
                         [(''config'', config)]) (\<lambda>question.
                   cont cmd (Some question)))))
               (\<lambda>_. update))
     (\<lambda>e. map (\<lambda>config. ''heroku config:add config'') HEROKU_CONFIGS @
           [''git push heroku master'',
            run e @ '' syncdb --noinput'',
            run e @ '' migrate --noinput'',
            run e @ '' collectstatic --noinput'',
            run e @ '' compress'',
            run e @ '' newrelic-admin validate-config - stdout''])"
  by (rule issues_bind[OF issues_for_each[OF issues_config] issues_update])

lemma bootstrap_first_commands:
  "take (Suc (length HEROKU_ADDONS)) (issued (bootstrap app) s) =
     take (Suc (length (takeWhile
             (\<lambda>j. \<not> (fails s j \<and> \<not> answers s (length (filter (fails s) [0..<j]))))
             [0..<length HEROKU_ADDONS])))
       ((''heroku apps:create '' @ (if truthy app then py_str app else ''{{ project_name}}''))
        # map (\<lambda>addon. ''heroku addons:add '' @ addon) HEROKU_ADDONS)"
proof -
  let ?cqs = "(''heroku apps:create '' @
                 (if truthy app then py_str app else ''{{ project_name}}''),
               ''Couldn't create the Heroku app, continue anyway?'')
              # map (\<lambda>addon. (''heroku addons:add '' @ addon,
                              ''Couldn't add '' @ addon @
                              '' to your Heroku app, continue anyway?''))
                  HEROKU_ADDONS"
  have asked: "\<forall>cq \<in> set ?cqs. snd cq \<noteq> []" by auto
  have nonempty: "?cqs \<noteq> []" by simp
  have cmds: "map fst ?cqs =
                (''heroku apps:create '' @ (if truthy app then py_str app else ''{{ project_name}}''))
                # map (\<lambda>addon. ''heroku addons:add '' @ addon) HEROKU_ADDONS"
    by (simp add: comp_def)
  have len: "length (map fst ?cqs) = Suc (length HEROKU_ADDONS)" by simp
  have len1: "length ?cqs - 1 = length HEROKU_ADDONS" by simp
  from issued_bind_take[OF issues_chain[of ?cqs], OF issues_configs_then_update, of s]
  have "take (Suc (length HEROKU_ADDONS)) (issued (bootstrap app) s) =
          issued (steps (map (\<lambda>cq. cont (fst cq) (Some (snd cq))) ?cqs)) s"
    unfolding len bootstrap_split[symmetric] .
  also have "\<dots> = take (Suc (length (takeWhile
             (\<lambda>j. \<not> (fails s j \<and> \<not> answers s (length (filter (fails s) [0..<j]))))
             [0..<length ?cqs - 1]))) (map fst ?cqs)"
    by (rule issued_chain[OF asked nonempty])
  finally show ?thesis unfolding cmds len1 .
qed

section \<open>The confirmation wrapper\<close>

text \<open>
  C1. For every command and every non-empty question: when the command run through
  \<^verbatim>\<open>cont\<close> fails, the operator is asked exactly once, with that question (the trace
  grows by the command and one prompt). When the operator declines, the run ends with the
  message \<^verbatim>\<open>Stopped execution per user request.\<close> and exit status 1, and no later step of
  the calling block runs; when the operator accepts, \<^verbatim>\<open>cont\<close> returns and the calling
  block goes on with its next step.
\<close>

theorem cont_failure_prompts_once:
  assumes "question \<noteq> []" and "fails s 0"
  shows "cont cmd (Some question) s =
           (if answers s 0 then Inr ()
            else Inl (Abort ''Stopped execution per user request.''),
            s\<lparr>fails := (\<lambda>i. fails s (Suc i)), answers := (\<lambda>i. answers s (Suc i)),
              trace := trace s @ [Ran cmd True, Asked question]\<rparr>)
         \<and> exit_status (fst (cont cmd (Some question) s)) = (if answers s 0 then 0 else 1)
         \<and> steps (cont cmd (Some question) # rest) s =
             (if answers s 0 then steps rest (snd (cont cmd (Some question) s))
              else cont cmd (Some question) s)"
  using assms
  by (simp add: cont_run truthy_def py_str_def Let_def exit_status_def bind_def)

text \<open>
  The scenario of the specification: the command exits non-zero, the question is
  \<^verbatim>\<open>Continue?\<close>. A declining operator ends the run before \<^verbatim>\<open>echo next\<close>; an accepting
  one lets it run.
\<close>

theorem cont_failure_prompts_once_witness:
  "''Continue?'' \<noteq> [] \<and> fails (fresh\<lparr>fails := (\<lambda>i. i = 0), answers := (\<lambda>i. False)\<rparr>) 0
   \<and> fst (steps [cont ''false'' (Some ''Continue?''), local_stmt ''echo next'']
         (fresh\<lparr>fails := (\<lambda>i. i = 0), answers := (\<lambda>i. False)\<rparr>))
       = Inl (Abort ''Stopped execution per user request.'')
   \<and> trace (snd (steps [cont ''false'' (Some ''Continue?''), local_stmt ''echo next'']
         (fresh\<lparr>fails := (\<lambda>i. i = 0), answers := (\<lambda>i. False)\<rparr>)))
       = [Ran ''false'' True, Asked ''Continue?'']
   \<and> fst (steps [cont ''false'' (Some ''Continue?''), local_stmt ''echo next'']
         (fresh\<lparr>fails := (\<lambda>i. i = 0)\<rparr>)) = Inr ()
   \<and> trace (snd (steps [cont ''false'' (Some ''Continue?''), local_stmt ''echo next'']
         (fresh\<lparr>fails := (\<lambda>i. i = 0)\<rparr>)))
       = [Ran ''false'' True, Asked ''Continue?'', Ran ''echo next'' False]"
  using cont_failure_prompts_once
          [of "''Continue?''" "fresh\<lparr>fails := (\<lambda>i. i = 0), answers := (\<lambda>i. False)\<rparr>"
              "''false''" "[local_stmt ''echo next'']"]
        cont_failure_prompts_once
          [of "''Continue?''" "fresh\<lparr>fails := (\<lambda>i. i = 0)\<rparr>"
              "''false''" "[local_stmt ''echo next'']"]
  by (simp add: fresh_def initial_env_def local_stmt_run bind_def return_def)

text \<open>
  C2. For every command and every message, empty, absent or not: when the command run
  through \<^verbatim>\<open>cont\<close> succeeds, \<^verbatim>\<open>cont\<close> returns normally; the only effect is the command
  itself. The operator is not asked, no answer is used up, the environment context is as
  before.
\<close>

theorem cont_success_returns_silently:
  assumes "\<not> fails s 0"
  shows "cont cmd message s =
           (Inr (), s\<lparr>fails := (\<lambda>i. fails s (Suc i)), trace := trace s @ [Ran cmd True]\<rparr>)"
  using assms by (simp add: cont_run Let_def)

theorem cont_success_returns_silently_witness:
  "\<not> fails fresh 0
   \<and> fst (cont ''true'' (Some ''Continue?'') fresh) = Inr ()
   \<and> trace (snd (cont ''true'' (Some ''Continue?'') fresh)) = [Ran ''true'' True]
   \<and> questions (trace (snd (cont ''true'' None fresh))) = []"
  using cont_success_returns_silently [of fresh "''true''" "Some ''Continue?''"]
        cont_success_returns_silently [of fresh "''true''" None]
  by (simp add: fresh_def)

text \<open>
  C3. For every command: when the command fails and the message is \<^verbatim>\<open>None\<close> or the empty
  string, nobody is asked, \<^verbatim>\<open>cont\<close> returns normally, and the run goes on exactly as if
  the command had succeeded: the result and the world are those of the same call in a world
  where the command succeeds.
\<close>

theorem cont_without_question_ignores_failure:
  assumes "fails s 0" and "message = None \<or> message = Some []"
  shows "cont cmd message s =
           (Inr (), s\<lparr>fails := (\<lambda>i. fails s (Suc i)), trace := trace s @ [Ran cmd True]\<rparr>)
         \<and> cont cmd message s = cont cmd message (s\<lparr>fails := (fails s)(0 := False)\<rparr>)
         \<and> steps (cont cmd message # rest) s =
             steps rest (s\<lparr>fails := (\<lambda>i. fails s (Suc i)), trace := trace s @ [Ran cmd True]\<rparr>)"
  using assms by (auto simp: cont_run truthy_def Let_def bind_def)

theorem cont_without_question_ignores_failure_witness:
  "fails (fresh\<lparr>fails := (\<lambda>i. i = 0), answers := (\<lambda>i. False)\<rparr>) 0
   \<and> fst (cont ''false'' None (fresh\<lparr>fails := (\<lambda>i. i = 0), answers := (\<lambda>i. False)\<rparr>)) = Inr ()
   \<and> trace (snd (cont ''false'' None (fresh\<lparr>fails := (\<lambda>i. i = 0), answers := (\<lambda>i. False)\<rparr>)))
       = [Ran ''false'' True]
   \<and> fst (cont ''false'' (Some []) (fresh\<lparr>fails := (\<lambda>i. i = 0), answers := (\<lambda>i. False)\<rparr>))
       = Inr ()
   \<and> trace (snd (cont ''false'' (Some [])
        (fresh\<lparr>fails := (\<lambda>i. i = 0), answers := (\<lambda>i. False)\<rparr>))) = [Ran ''false'' True]"
  using cont_without_question_ignores_failure
          [of "fresh\<lparr>fails := (\<lambda>i. i = 0), answers := (\<lambda>i. False)\<rparr>" None "''false''" "[]"]
        cont_without_question_ignores_failure
          [of "fresh\<lparr>fails := (\<lambda>i. i = 0), answers := (\<lambda>i. False)\<rparr>" "Some []" "''false''" "[]"]
  by (simp add: fresh_def)

section \<open>The catalogs in \<^verbatim>\<open>bootstrap\<close>\<close>

text \<open>
  C4. The claim: during \<^verbatim>\<open>bootstrap\<close> every entry of \<^verbatim>\<open>HEROKU_CONFIGS\<close> is pushed, one
  command per entry, and the command contains the entry's \<^verbatim>\<open>key=value\<close> string. The code
  formats the template \<^verbatim>\<open>heroku config:add config\<close>, which has no \<^verbatim>\<open>{config}\<close> field, so
  for every entry the command is the template itself. In the fresh world the six commands
  of the loop (the ninth to the fourteenth command of the run) are all that text, and none
  of the six entries occurs in it.
\<close>

theorem bootstrap_config_push_omits_entry:
  "format ''heroku config:add config'' [(''config'', config)] s =
     (Inr ''heroku config:add config'', s)
   \<and> take 6 (drop 8 (issued (bootstrap None) fresh)) =
       [''heroku config:add config'', ''heroku config:add config'',
        ''heroku config:add config'', ''heroku config:add config'',
        ''heroku config:add config'', ''heroku config:add config'']
   \<and> list_all (\<lambda>entry. \<not> sublist entry ''heroku config:add config'') HEROKU_CONFIGS"
proof -
  have a: "format ''heroku config:add config'' [(''config'', config)] s =
             (Inr ''heroku config:add config'', s)"
    by (simp add: format_config_cmd return_def)
  have b: "take 6 (drop 8 (issued (bootstrap None) fresh)) =
       [''heroku config:add config'', ''heroku config:add config'',
        ''heroku config:add config'', ''heroku config:add config'',
        ''heroku config:add config'', ''heroku config:add config'']"
    by code_simp
  have c: "list_all (\<lambda>entry. \<not> sublist entry ''heroku config:add config'') HEROKU_CONFIGS"
    by code_simp
  from a b c show ?thesis by blast
qed

text \<open>
  C5. In every run of \<^verbatim>\<open>bootstrap\<close> the first commands are the creation of the
  application and then one \<^verbatim>\<open>heroku addons:add\<close> command for each entry of
  \<^verbatim>\<open>HEROKU_ADDONS\<close> in listed order, the command ending in the entry's identifier, up to
  and including the first of these commands that fails with the operator declining its
  prompt; when there is none, every entry is installed, once. No add-on is installed
  anywhere else: all the commands of the run are an initial part of these, the commands
  of the configuration loop and the commands of the update, and a run that returns has
  run them all.
\<close>

theorem bootstrap_installs_addons_until_declined:
  "take (Suc (length HEROKU_ADDONS)) (issued (bootstrap app) s) =
     take (Suc (length (takeWhile
             (\<lambda>j. \<not> (fails s j \<and> \<not> answers s (length (filter (fails s) [0..<j]))))
             [0..<length HEROKU_ADDONS])))
       ((''heroku apps:create '' @ (if truthy app then py_str app else ''{{ project_name}}''))
        # map (\<lambda>addon. ''heroku addons:add '' @ addon) HEROKU_ADDONS)
   \<and> commands (trace (snd (bootstrap app s))) = commands (trace s) @ issued (bootstrap app) s
   \<and> prefix (issued (bootstrap app) s)
       ((''heroku apps:create '' @ (if truthy app then py_str app else ''{{ project_name}}''))
        # map (\<lambda>addon. ''heroku addons:add '' @ addon) HEROKU_ADDONS
        @ map (\<lambda>config. ''heroku config:add config'') HEROKU_CONFIGS
        @ [''git push heroku master'',
           run (env s) @ '' syncdb --noinput'',
           run (env s) @ '' migrate --noinput'',
           run (env s) @ '' collectstatic --noinput'',
           run (env s) @ '' compress'',
           run (env s) @ '' newrelic-admin validate-config - stdout''])
   \<and> (fst (bootstrap app s) = Inr () \<longrightarrow>
        issued (bootstrap app) s =
          (''heroku apps:create '' @ (if truthy app then py_str app else ''{{ project_name}}''))
          # map (\<lambda>addon. ''heroku addons:add '' @ addon) HEROKU_ADDONS
          @ map (\<lambda>config. ''heroku config:add config'') HEROKU_CONFIGS
          @ [''git push heroku master'',
             run (env s) @ '' syncdb --noinput'',
             run (env s) @ '' migrate --noinput'',
             run (env s) @ '' collectstatic --noinput'',
             run (env s) @ '' compress'',
             run (env s) @ '' newrelic-admin validate-config - stdout''])"
  using bootstrap_first_commands[of app s]
        issued_of_issues(1)[OF issues_bootstrap, of app s]
        issued_of_issues(2)[OF issues_bootstrap, of app s]
        issued_of_issues(3)[OF issues_bootstrap, of app s "()"]
  by blast

text \<open>
  In the fresh world all seven add-ons are installed; when the third installation fails
  and the operator declines, the run stops after it.
\<close>

theorem bootstrap_installs_addons_until_declined_witness:
  "fst (bootstrap None fresh) = Inr ()
   \<and> issued (bootstrap None) fresh =
       [''heroku apps:create {{ project_name}}'',
        ''heroku addons:add cloudamqp:lemur'',
        ''heroku addons:add heroku-postgresql:dev'',
        ''heroku addons:add scheduler:standard'',
        ''heroku addons:add memcachier:dev'',
        ''heroku addons:add newrelic:standard'',
        ''heroku addons:add pgbackups:auto-month'',
        ''heroku addons:add sentry:developer'',
        ''heroku config:add config'',
        ''heroku config:add config'',
        ''heroku config:add config'',
        ''heroku config:add config'',
        ''heroku config:add config'',
        ''heroku config:add config'',
        ''git push heroku master'',
        ''heroku run python manage.py syncdb --noinput'',
        ''heroku run python manage.py migrate --noinput'',
        ''heroku run python manage.py collectstatic --noinput'',
        ''heroku run python manage.py compress'',
        ''heroku run python manage.py newrelic-admin validate-config - stdout'']
   \<and> take 8 (issued (bootstrap None) third_addon_declined) =
       [''heroku apps:create {{ project_name}}'',
        ''heroku addons:add cloudamqp:lemur'',
        ''heroku addons:add heroku-postgresql:dev'',
        ''heroku addons:add scheduler:standard'']"
proof -
  have stop: "take (Suc (length (takeWhile
             (\<lambda>j. \<not> (fails third_addon_declined j \<and>
                       \<not> answers third_addon_declined
                            (length (filter (fails third_addon_declined) [0..<j]))))
             [0..<length HEROKU_ADDONS])))
       ((''heroku apps:create '' @ (if truthy None then py_str None else ''{{ project_name}}''))
        # map (\<lambda>addon. ''heroku addons:add '' @ addon) HEROKU_ADDONS) =
       [''heroku apps:create {{ project_name}}'',
        ''heroku addons:add cloudamqp:lemur'',
        ''heroku addons:add heroku-postgresql:dev'',
        ''heroku addons:add scheduler:standard'']"
    by code_simp
  have eight: "Suc (length HEROKU_ADDONS) = 8" by (simp add: HEROKU_ADDONS_def)
  from bootstrap_installs_addons_until_declined [of None third_addon_declined]
  have declined: "take 8 (issued (bootstrap None) third_addon_declined) =
       [''heroku apps:create {{ project_name}}'',
        ''heroku addons:add cloudamqp:lemur'',
        ''heroku addons:add heroku-postgresql:dev'',
        ''heroku addons:add scheduler:standard'']"
    unfolding stop eight by blast
  from bootstrap_installs_addons_until_declined [of None fresh] bootstrap_fresh_returns
  have "issued (bootstrap None) fresh =
          (''heroku apps:create '' @ (if truthy None then py_str None else ''{{ project_name}}''))
          # map (\<lambda>addon. ''heroku addons:add '' @ addon) HEROKU_ADDONS
          @ map (\<lambda>config. ''heroku config:add config'') HEROKU_CONFIGS
          @ [''git push heroku master'',
             run (env fresh) @ '' syncdb --noinput'',
             run (env fresh) @ '' migrate --noinput'',
             run (env fresh) @ '' collectstatic --noinput'',
             run (env fresh) @ '' compress'',
             run (env fresh) @ '' newrelic-admin validate-config - stdout'']"
    by blast
  then have full: "issued (bootstrap None) fresh =
       [''heroku apps:create {{ project_name}}'',
        ''heroku addons:add cloudamqp:lemur'',
        ''heroku addons:add heroku-postgresql:dev'',
        ''heroku addons:add scheduler:standard'',
        ''heroku addons:add memcachier:dev'',
        ''heroku addons:add newrelic:standard'',
        ''heroku addons:add pgbackups:auto-month'',
        ''heroku addons:add sentry:developer'',
        ''heroku config:add config'',
        ''heroku config:add config'',
        ''heroku config:add config'',
        ''heroku config:add config'',
        ''heroku config:add config'',
        ''heroku config:add config'',
        ''git push heroku master'',
        ''heroku run python manage.py syncdb --noinput'',
        ''heroku run python manage.py migrate --noinput'',
        ''heroku run python manage.py collectstatic --noinput'',
        ''heroku run python manage.py compress'',
        ''heroku run python manage.py newrelic-admin validate-config - stdout'']"
    by (simp add: HEROKU_ADDONS_def HEROKU_CONFIGS_def truthy_def fresh_def initial_env_def)
  from bootstrap_fresh_returns full declined show ?thesis by blast
qed

text \<open>
  Read without the condition on the operator, the property does not hold: in that second
  world the run is ended by the operator's answer, one question was asked, and the fourth
  entry of the catalog, \<^verbatim>\<open>memcachier:dev\<close>, is not installed at all.
\<close>

theorem bootstrap_addons_counterexample:
  "fst (bootstrap None third_addon_declined) =
     Inl (Abort ''Stopped execution per user request.'')
   \<and> issued (bootstrap None) third_addon_declined =
       [''heroku apps:create {{ project_name}}'',
        ''heroku addons:add cloudamqp:lemur'',
        ''heroku addons:add heroku-postgresql:dev'',
        ''heroku addons:add scheduler:standard'']
   \<and> questions (trace (snd (bootstrap None third_addon_declined))) =
       [''Couldn't add scheduler:standard to your Heroku app, continue anyway?'']
   \<and> HEROKU_ADDONS ! 3 = ''memcachier:dev''
   \<and> count_list (issued (bootstrap None) third_addon_declined)
         ''heroku addons:add memcachier:dev'' = 0"
  by code_simp

section \<open>The default application name\<close>

text \<open>
  C6. The claim: without an application name (\<^verbatim>\<open>None\<close> or the empty string)
  \<^verbatim>\<open>bootstrap\<close> and \<^verbatim>\<open>destroy\<close> put the same default name into their commands. Each task
  does fall back to a fixed name, but line 147 writes \<^verbatim>\<open>{{ project_name}}\<close> and line 182
  writes \<^verbatim>\<open>{{ project_name }}\<close>: as the names are passed to \<^verbatim>\<open>format\<close> as values, they
  reach the commands unchanged, and the two commands carry different names.
\<close>

theorem bootstrap_destroy_default_tokens:
  "issued (bootstrap None) fresh ! 0 = ''heroku apps:create {{ project_name}}''
   \<and> issued (bootstrap (Some [])) fresh ! 0 = ''heroku apps:create {{ project_name}}''
   \<and> issued (destroy None) fresh = [''heroku apps:destroy --app {{ project_name }}'']
   \<and> issued (destroy (Some [])) fresh = [''heroku apps:destroy --app {{ project_name }}'']
   \<and> ''{{ project_name}}'' \<noteq> ''{{ project_name }}''"
proof -
  have a: "issued (bootstrap None) fresh ! 0 = ''heroku apps:create {{ project_name}}''"
    by code_simp
  have b: "issued (bootstrap (Some [])) fresh ! 0 = ''heroku apps:create {{ project_name}}''"
    by code_simp
  have c: "issued (destroy None) fresh = [''heroku apps:destroy --app {{ project_name }}'']"
    by code_simp
  have d: "issued (destroy (Some [])) fresh = [''heroku apps:destroy --app {{ project_name }}'']"
    by code_simp
  have e: "''{{ project_name}}'' \<noteq> ''{{ project_name }}''" by simp
  from a b c d e show ?thesis by blast
qed

section \<open>The task \<^verbatim>\<open>update\<close>\<close>

text \<open>
  C7. When every command succeeds, \<^verbatim>\<open>update\<close> returns normally after running, in this
  order and with nothing in between: the push, \<^verbatim>\<open>syncdb\<close>, \<^verbatim>\<open>migrate\<close> without an
  application name (the migration of the whole site), \<^verbatim>\<open>collectstatic\<close>, \<^verbatim>\<open>compress\<close>
  and the validation of New Relic. Nobody is asked.
\<close>

theorem update_runs_four_steps_in_order:
  assumes "\<forall>i<6. \<not> fails s i"
  shows "update s =
           (Inr (),
            s\<lparr>fails := (\<lambda>i. fails s (i + 6)),
              trace := trace s @
                [Ran ''git push heroku master'' True,
                 Ran (run (env s) @ '' syncdb --noinput'') False,
                 Ran (run (env s) @ '' migrate --noinput'') False,
                 Ran (run (env s) @ '' collectstatic --noinput'') False,
                 Ran (run (env s) @ '' compress'') False,
                 Ran (run (env s) @ '' newrelic-admin validate-config - stdout'') True]\<rparr>)"
proof -
  from assms have f: "\<not> fails s 0" "\<not> fails s (Suc 0)" "\<not> fails s (Suc (Suc 0))"
    "\<not> fails s (Suc (Suc (Suc 0)))" "\<not> fails s (Suc (Suc (Suc (Suc 0))))"
    "\<not> fails s (Suc (Suc (Suc (Suc (Suc 0)))))"
    by simp_all
  have six: "\<And>i::nat. i + 6 = Suc (Suc (Suc (Suc (Suc (Suc i)))))" by simp
  show ?thesis
    using f
    by (simp add: update_def six bind_def cont_run Let_def syncdb_def migrate_def
        collectstatic_def compress_def truthy_def format_env_syncdb
        format_env_migrate format_env_collectstatic format_env_compress
        format_env_newrelic local_stmt_run return_def)
qed

theorem update_runs_four_steps_in_order_witness:
  "list_all (\<lambda>i. \<not> fails fresh i) [0, 1, 2, 3, 4, 5]
   \<and> fst (update fresh) = Inr ()
   \<and> trace (snd (update fresh)) =
       [Ran ''git push heroku master'' True,
        Ran ''heroku run python manage.py syncdb --noinput'' False,
        Ran ''heroku run python manage.py migrate --noinput'' False,
        Ran ''heroku run python manage.py collectstatic --noinput'' False,
        Ran ''heroku run python manage.py compress'' False,
        Ran ''heroku run python manage.py newrelic-admin validate-config - stdout'' True]"
  using update_runs_four_steps_in_order [of fresh]
  by (simp add: fresh_def initial_env_def)

section \<open>The environment context\<close>

text \<open>
  C8. For every task, every argument and every world (whatever the commands and the
  operator do, also when the run ends early), the environment context after the task is
  the one before it. Inside \<^verbatim>\<open>cont\<close> the key \<^verbatim>\<open>warn_only\<close> is overridden for the extent of
  the \<^verbatim>\<open>with\<close> block and put back when the block is left.
\<close>

theorem tasks_leave_env_unchanged:
  "env (snd (syncdb s)) = env s
   \<and> env (snd (migrate app s)) = env s
   \<and> env (snd (south_init name s)) = env s
   \<and> env (snd (south_update name s)) = env s
   \<and> env (snd (collectstatic s)) = env s
   \<and> env (snd (compress s)) = env s
   \<and> env (snd (initialize s)) = env s
   \<and> env (snd (startapp name s)) = env s
   \<and> env (snd (update s)) = env s
   \<and> env (snd (bootstrap app s)) = env s
   \<and> env (snd (destroy app s)) = env s"
  by (simp only: issued_of_issues(4)[OF issues_syncdb] issued_of_issues(4)[OF issues_migrate]
      issued_of_issues(4)[OF issues_south_init] issued_of_issues(4)[OF issues_south_update]
      issued_of_issues(4)[OF issues_collectstatic] issued_of_issues(4)[OF issues_compress]
      issued_of_issues(4)[OF issues_initialize] issued_of_issues(4)[OF issues_startapp]
      issued_of_issues(4)[OF issues_update] issued_of_issues(4)[OF issues_bootstrap]
      issued_of_issues(4)[OF issues_destroy] simp_thms)

theorem tasks_leave_env_unchanged_witness:
  "env (snd (update (fresh\<lparr>fails := (\<lambda>i. i = 0), answers := (\<lambda>i. False)\<rparr>))) = initial_env
   \<and> env (snd (bootstrap None (fresh\<lparr>fails := (\<lambda>i. True)\<rparr>))) = initial_env
   \<and> env (snd (destroy None (fresh\<lparr>fails := (\<lambda>i. True)\<rparr>))) = initial_env"
  using tasks_leave_env_unchanged
          [of "fresh\<lparr>fails := (\<lambda>i. i = 0), answers := (\<lambda>i. False)\<rparr>" None "[]"]
        tasks_leave_env_unchanged [of "fresh\<lparr>fails := (\<lambda>i. True)\<rparr>" None "[]"]
  by (simp add: fresh_def)

section \<open>\<^verbatim>\<open>bootstrap\<close> ends with \<^verbatim>\<open>update\<close>\<close>

text \<open>
  C9. For every application name and every world (every outcome of the commands, every
  sequence of answers): when the part of \<^verbatim>\<open>bootstrap\<close> up to the end of the configuration
  loop ends the run, \<^verbatim>\<open>bootstrap\<close> ends there; otherwise what \<^verbatim>\<open>bootstrap\<close> does from the
  world reached is what \<^verbatim>\<open>update\<close> does from that world: the same commands, wrapped the
  same way, with the same questions.
\<close>

theorem bootstrap_ends_with_update:
  "bootstrap app s =
     (if isl (fst (provision app s)) then provision app s
      else update (snd (provision app s)))"
  by (cases "provision app s")
     (auto simp: bootstrap_provision_update bind_def split: sum.splits)

theorem bootstrap_ends_with_update_witness:
  "bootstrap None fresh = update (snd (provision None fresh))
   \<and> fst (provision None fresh) = Inr ()"
proof -
  have "fst (provision None fresh) = Inr ()" by code_simp
  with bootstrap_ends_with_update [of None fresh] show ?thesis by simp
qed

section \<open>The task \<^verbatim>\<open>destroy\<close>\<close>

text \<open>
  C10. For every application name and every world, \<^verbatim>\<open>destroy\<close> runs one command, the
  teardown, through \<^verbatim>\<open>local\<close> itself and not through \<^verbatim>\<open>cont\<close>: the output is not captured,
  \<^verbatim>\<open>warn_only\<close> is not overridden, the operator is never asked and no answer is used up.
  When the command fails the operator cannot let the run go on: with \<^verbatim>\<open>env.warn_only\<close> off,
  as Fabric starts, the run ends with exit status 1.
\<close>

theorem destroy_is_unwrapped:
  "destroy app s =
     (if fails s 0 \<and> \<not> warn_only (env s)
      then Inl (LocalFailed (''heroku apps:destroy --app '' @
                  (if truthy app then py_str app else ''{{ project_name }}'')))
      else Inr (),
      s\<lparr>fails := (\<lambda>i. fails s (Suc i)),
        trace := trace s @
          [Ran (''heroku apps:destroy --app '' @
                  (if truthy app then py_str app else ''{{ project_name }}'')) False]\<rparr>)
   \<and> questions (trace (snd (destroy app s))) = questions (trace s)
   \<and> answers (snd (destroy app s)) = answers s
   \<and> exit_status (fst (destroy app s)) = (if fails s 0 \<and> \<not> warn_only (env s) then 1 else 0)"
proof -
  let ?cmd = "''heroku apps:destroy --app '' @
                (if truthy app then py_str app else ''{{ project_name }}'')"
  have run: "destroy app s =
     (if fails s 0 \<and> \<not> warn_only (env s) then Inl (LocalFailed ?cmd) else Inr (),
      s\<lparr>fails := (\<lambda>i. fails s (Suc i)), trace := trace s @ [Ran ?cmd False]\<rparr>)"
    by (simp only: destroy_run local_stmt_run)
  have asked: "questions (trace (snd (destroy app s))) = questions (trace s)"
    by (simp add: run questions_append)
  have unused: "answers (snd (destroy app s)) = answers s"
    by (simp add: run)
  have status: "exit_status (fst (destroy app s)) =
                  (if fails s 0 \<and> \<not> warn_only (env s) then 1 else 0)"
    by (simp add: run exit_status_def)
  from run asked unused status show ?thesis by blast
qed

theorem destroy_is_unwrapped_witness:
  "fst (destroy (Some ''myapp'') (fresh\<lparr>fails := (\<lambda>i. True)\<rparr>)) =
     Inl (LocalFailed ''heroku apps:destroy --app myapp'')
   \<and> trace (snd (destroy (Some ''myapp'') (fresh\<lparr>fails := (\<lambda>i. True)\<rparr>))) =
       [Ran ''heroku apps:destroy --app myapp'' False]
   \<and> exit_status (fst (destroy (Some ''myapp'') (fresh\<lparr>fails := (\<lambda>i. True)\<rparr>))) = 1"
  using destroy_is_unwrapped [of "Some ''myapp''" "fresh\<lparr>fails := (\<lambda>i. True)\<rparr>"]
  by (simp add: fresh_def initial_env_def truthy_def py_str_def exit_status_def)

end
